theory Spec2Isabelle
  imports Main "HOL-Library.Char_ord"
begin

section \<open>Regular expressions of the source\<close>

text \<open>
  The source matches strings with five JavaScript regular-expression literals. All of them
  are sequences of the following pieces, so a pattern is a list of tokens:
  \<^item> \<open>Bol\<close> is \<^verbatim>\<open>^\<close> and \<open>Eol\<close> is \<^verbatim>\<open>$\<close> (no \<^verbatim>\<open>m\<close> flag: start and end of the input);
  \<^item> \<open>Lit l\<close> is the literal text \<open>l\<close> (with \<^verbatim>\<open>\.\<close> and \<^verbatim>\<open>\/\<close> unescaped);
  \<^item> \<open>Cls lo hi\<close> is \<^verbatim>\<open>[a-zA-Z0-9_-]{lo,hi}\<close>, greedy; \<open>hi = None\<close> is no upper bound, so
    \<^verbatim>\<open>+\<close> is \<open>Cls 1 None\<close> and \<^verbatim>\<open>{43}\<close> is \<open>Cls 43 (Some 43)\<close>;
  \<^item> \<open>CapCls lo hi\<close> is the same inside capture group 1: \<^verbatim>\<open>([a-zA-Z0-9_-]{lo,hi})\<close>.
\<close>

datatype token = Bol | Eol | Lit string | Cls nat "nat option" | CapCls nat "nat option"

text \<open>
  The character class \<^verbatim>\<open>[a-zA-Z0-9_-]\<close>. A string of the source is a \<open>string\<close> here, one
  \<open>char\<close> for each code unit; the patterns have no \<^verbatim>\<open>i\<close> or \<^verbatim>\<open>u\<close> flag, so the class holds
  these 64 ASCII characters and nothing else.
\<close>

definition idChar :: "char \<Rightarrow> bool" where
  "idChar c =
     ((CHR ''a'' \<le> c \<and> c \<le> CHR ''z'') \<or> (CHR ''A'' \<le> c \<and> c \<le> CHR ''Z'') \<or>
      (CHR ''0'' \<le> c \<and> c \<le> CHR ''9'') \<or> c = CHR ''_'' \<or> c = CHR ''-'')"

text \<open>Matching a literal at the front of the input; the result is the rest of the input.\<close>

fun strip_lit :: "string \<Rightarrow> string \<Rightarrow> string option" where
  "strip_lit [] s = Some s"
| "strip_lit (c # cs) [] = None"
| "strip_lit (c # cs) (x # xs) = (if c = x then strip_lit cs xs else None)"

text \<open>
  The numbers of characters a greedy class repetition may consume at the front of \<open>s\<close>,
  in the order a backtracking matcher tries them: the longest run first, down to \<open>lo\<close>.
\<close>

definition run_lengths :: "nat \<Rightarrow> nat option \<Rightarrow> string \<Rightarrow> nat list" where
  "run_lengths lo hi s =
     (let avail = length (takeWhile idChar s);
          mx = (case hi of None \<Rightarrow> avail | Some h \<Rightarrow> min h avail)
      in rev [lo ..< Suc mx])"

fun first_some :: "'a option list \<Rightarrow> 'a option" where
  "first_some [] = None"
| "first_some (Some x # xs) = Some x"
| "first_some (None # xs) = first_some xs"

text \<open>
  \<open>m_toks ts start s cap\<close> matches the tokens \<open>ts\<close> at the front of \<open>s\<close>. \<open>start\<close> says that
  \<open>s\<close> is the whole input (position 0), \<open>cap\<close> is the text of group 1 so far. The result is
  \<open>None\<close> when there is no match and \<open>Some cap'\<close> with the final group 1 otherwise.
\<close>

fun m_toks :: "token list \<Rightarrow> bool \<Rightarrow> string \<Rightarrow> string option \<Rightarrow> string option option" where
  "m_toks [] start s cap = Some cap"
| "m_toks (Bol # ts) start s cap = (if start then m_toks ts start s cap else None)"
| "m_toks (Eol # ts) start s cap = (if s = [] then m_toks ts start s cap else None)"
| "m_toks (Lit l # ts) start s cap =
     (case strip_lit l s of
        None \<Rightarrow> None
      | Some r \<Rightarrow> m_toks ts (start \<and> l = []) r cap)"
| "m_toks (Cls lo hi # ts) start s cap =
     first_some (map (\<lambda>k. m_toks ts (start \<and> k = 0) (drop k s) cap) (run_lengths lo hi s))"
| "m_toks (CapCls lo hi # ts) start s cap =
     first_some (map (\<lambda>k. m_toks ts (start \<and> k = 0) (drop k s) (Some (take k s)))
                     (run_lengths lo hi s))"

text \<open>
  An unanchored search, as \<^verbatim>\<open>String.prototype.match\<close> and \<^verbatim>\<open>RegExp.prototype.test\<close> do
  for a pattern without the \<^verbatim>\<open>g\<close> flag: the leftmost start position that matches wins.
\<close>

fun rx_from :: "token list \<Rightarrow> bool \<Rightarrow> string \<Rightarrow> string option option" where
  "rx_from ts start [] = m_toks ts start [] None"
| "rx_from ts start (c # s) =
     (case m_toks ts start (c # s) None of
        Some cap \<Rightarrow> Some cap
      | None \<Rightarrow> rx_from ts False s)"

definition rx_match :: "token list \<Rightarrow> string \<Rightarrow> string option option" where
  "rx_match ts s = rx_from ts True s"

definition rx_test :: "token list \<Rightarrow> string \<Rightarrow> bool" where
  "rx_test ts s = (rx_match ts s \<noteq> None)"

section \<open>URL and identifier utilities (src/lib/arns-utils.ts)\<close>

text \<open>\<^verbatim>\<open>isValidArweaveId\<close>: \<^verbatim>\<open>/^[a-zA-Z0-9_-]{43}$/.test(id)\<close>.\<close>

definition isValidArweaveId :: "string \<Rightarrow> bool" where
  "isValidArweaveId ident = rx_test [Bol, Cls 43 (Some 43), Eol] ident"

text \<open>
  \<^verbatim>\<open>extractTransactionId\<close>: the three patterns, in the order of the array, and the loop over
  them. \<^verbatim>\<open>match[1]\<close> is group 1 of the match; a group that did not take part would read
  as \<^verbatim>\<open>undefined\<close>, which \<^verbatim>\<open>isValidArweaveId\<close> rejects.
\<close>

definition patterns :: "token list list" where
  "patterns =
     [ [Lit ''arweave.net/'', CapCls 43 (Some 43)],
       [Lit ''ar.io/'', CapCls 43 (Some 43)],
       [Lit ''/'', CapCls 43 (Some 43), Eol] ]"

fun extract_loop :: "token list list \<Rightarrow> string \<Rightarrow> string option" where
  "extract_loop [] url = None"
| "extract_loop (pattern # ps) url =
     (case rx_match pattern url of
        Some (Some g) \<Rightarrow> if isValidArweaveId g then Some g else extract_loop ps url
      | _ \<Rightarrow> extract_loop ps url)"

definition extractTransactionId :: "string \<Rightarrow> string option" where
  "extractTransactionId url = extract_loop patterns url"

section \<open>The outside world\<close>

text \<open>
  \<^verbatim>\<open>getArnsNames\<close> and \<^verbatim>\<open>migrateToArns\<close> await calls into the wallet extension and the
  registry SDK. What those calls answer is a parameter of the model: a \<open>world\<close> gives the
  answer of each call, \<open>Inl\<close> of the thrown value when the call throws (or its promise
  rejects).
\<close>

text \<open>A thrown value: an \<^verbatim>\<open>Error\<close> with its message, or anything else.\<close>

datatype exn = Error string | Thrown

text \<open>One value of the object \<^verbatim>\<open>io.getArNSRecords()\<close> resolves to.\<close>

record registry_record =
  rec_processId :: string
  rec_undername :: "string option"

text \<open>\<^verbatim>\<open>interface ArnsName\<close>; an optional field is an \<open>option\<close>.\<close>

record ArnsName =
  name :: string
  processId :: string
  undername :: "string option"

text \<open>What \<^verbatim>\<open>ant.getInfo()\<close> resolves to (only \<^verbatim>\<open>Owner\<close> is read).\<close>

record ant_info =
  Owner :: string

text \<open>
  One call of \<^verbatim>\<open>ANT.init({ processId, signer }).setUndernameRecord(params, { tags })\<close>:
  the process the ANT client was initialised with, the fields of \<^verbatim>\<open>params\<close> and the tags.
  \<open>sub_transactionId\<close> is \<^verbatim>\<open>txIdMatch[1]\<close>, which is \<^verbatim>\<open>undefined\<close> (\<open>None\<close>) for a group that
  did not take part in the match.
\<close>

record submission =
  sub_processId :: string
  sub_undername :: string
  sub_transactionId :: "string option"
  sub_ttlSeconds :: nat
  sub_tags :: "(string \<times> string) list"

text \<open>What \<^verbatim>\<open>setUndernameRecord\<close> resolves to (only \<^verbatim>\<open>id\<close> is read).\<close>

record write_result =
  res_id :: "string option"

text \<open>The return value of \<^verbatim>\<open>migrateToArns\<close>.\<close>

record migration_result =
  arnsUrl :: string
  transactionId :: string

text \<open>
  \<^item> \<open>io_getArNSRecords\<close>: \<^verbatim>\<open>IO.init().getArNSRecords()\<close>, as the list \<^verbatim>\<open>Object.entries\<close> makes
    of it (in its iteration order);
  \<^item> \<open>ant_getInfo pid\<close>: \<^verbatim>\<open>ANT.init({ processId: pid }).getInfo()\<close>;
  \<^item> \<open>arweaveWallet\<close>: \<^verbatim>\<open>window\<close> exists and \<^verbatim>\<open>window.arweaveWallet\<close> is truthy;
  \<^item> \<open>ant_setUndernameRecord\<close>: creating the signer and the ANT client and awaiting
    \<^verbatim>\<open>setUndernameRecord\<close>;
  \<^item> \<open>clock\<close>: \<^verbatim>\<open>new Date().toISOString()\<close>;
  \<^item> \<open>node_env\<close>: \<^verbatim>\<open>process.env.NODE_ENV\<close>.
\<close>

record world =
  io_getArNSRecords :: "exn + (string \<times> registry_record) list"
  ant_getInfo :: "string \<Rightarrow> exn + ant_info"
  arweaveWallet :: bool
  ant_setUndernameRecord :: "submission \<Rightarrow> exn + write_result"
  clock :: string
  node_env :: "string option"

text \<open>\<^verbatim>\<open>x || d\<close> on an optional string: \<^verbatim>\<open>undefined\<close> and the empty string are falsy.\<close>

definition or_default :: "string option \<Rightarrow> string \<Rightarrow> string" where
  "or_default x d = (case x of None \<Rightarrow> d | Some s \<Rightarrow> if s = [] then d else s)"

section \<open>Name directory lookup: \<^verbatim>\<open>getArnsNames\<close>\<close>

text \<open>
  The \<^verbatim>\<open>for\<close> loop over the entries, with \<^verbatim>\<open>userArnsNames\<close> as accumulator. The inner
  \<^verbatim>\<open>try\<close>/\<^verbatim>\<open>catch\<close> only warns, so an entry whose query throws leaves the accumulator as
  it is.
\<close>

fun scan_records :: "world \<Rightarrow> string \<Rightarrow> (string \<times> registry_record) list \<Rightarrow> ArnsName list \<Rightarrow> ArnsName list" where
  "scan_records w walletAddress [] userArnsNames = userArnsNames"
| "scan_records w walletAddress ((nm, r) # entries) userArnsNames =
     (case ant_getInfo w (rec_processId r) of
        Inl error \<Rightarrow> scan_records w walletAddress entries userArnsNames
      | Inr antInfo \<Rightarrow>
          if Owner antInfo = walletAddress
          then scan_records w walletAddress entries
                 (userArnsNames @
                    [\<lparr>name = nm, processId = rec_processId r,
                      undername = Some (or_default (rec_undername r) ''@'')\<rparr>])
          else scan_records w walletAddress entries userArnsNames)"

text \<open>The body of the outer \<^verbatim>\<open>try\<close>.\<close>

definition getArnsNames_try :: "world \<Rightarrow> string \<Rightarrow> exn + ArnsName list" where
  "getArnsNames_try w walletAddress =
     (case io_getArNSRecords w of
        Inl error \<Rightarrow> Inl error
      | Inr arnsRecords \<Rightarrow> Inr (scan_records w walletAddress arnsRecords []))"

definition mock_names :: "ArnsName list" where
  "mock_names =
     [\<lparr>name = ''example-arns'', processId = ''mock-process-id-1234567890abcdef'',
       undername = Some ''@''\<rparr>,
      \<lparr>name = ''test-domain'', processId = ''mock-process-id-abcdef1234567890'',
       undername = Some ''www''\<rparr>]"

definition getArnsNames :: "world \<Rightarrow> string \<Rightarrow> exn + ArnsName list" where
  "getArnsNames w walletAddress =
     (case getArnsNames_try w walletAddress of
        Inr userArnsNames \<Rightarrow> Inr userArnsNames
      | Inl error \<Rightarrow>
          if node_env w = Some ''development'' then Inr mock_names
          else Inl (Error ''Failed to fetch ARNS names. Please try again.''))"

section \<open>Migration executor: \<^verbatim>\<open>migrateToArns\<close>\<close>

text \<open>The pattern \<^verbatim>\<open>/\/([a-zA-Z0-9_-]+)$/\<close> of \<^verbatim>\<open>migrateToArns\<close>.\<close>

definition txIdPattern :: "token list" where
  "txIdPattern = [Lit ''/'', CapCls 1 None, Eol]"

text \<open>The loop that looks the name of a process up, leaving at the first hit.\<close>

fun find_arnsName :: "(string \<times> registry_record) list \<Rightarrow> string \<Rightarrow> string" where
  "find_arnsName [] pid = []"
| "find_arnsName ((nm, r) # entries) pid =
     (if rec_processId r = pid then nm else find_arnsName entries pid)"

definition make_submission :: "world \<Rightarrow> string \<Rightarrow> string \<Rightarrow> string \<Rightarrow> string option \<Rightarrow> submission" where
  "make_submission w pid un arweaveUrl txid =
     \<lparr>sub_processId = pid, sub_undername = un, sub_transactionId = txid,
      sub_ttlSeconds = 3600,
      sub_tags = [(''App-Name'', ''ARNS-Migration-Tool''),
                  (''Migration-Source'', arweaveUrl),
                  (''Timestamp'', clock w)]\<rparr>"

text \<open>
  The body of the \<^verbatim>\<open>try\<close>. The first component is the list of the submissions made to
  the contract (none or one), the second how the body ends.
\<close>

definition migrateToArns_try :: "world \<Rightarrow> string \<Rightarrow> string \<Rightarrow> string \<Rightarrow> submission list \<times> (exn + migration_result)" where
  "migrateToArns_try w pid un arweaveUrl =
     (case rx_match txIdPattern arweaveUrl of
        None \<Rightarrow> ([], Inl (Error ''Invalid Arweave URL format''))
      | Some txid \<Rightarrow>
          if \<not> arweaveWallet w then ([], Inl (Error ''ArConnect wallet not found''))
          else
            let sub = make_submission w pid un arweaveUrl txid in
            (case ant_setUndernameRecord w sub of
               Inl error \<Rightarrow> ([sub], Inl error)
             | Inr result \<Rightarrow>
                 (case io_getArNSRecords w of
                    Inl error \<Rightarrow> ([sub], Inl error)
                  | Inr arnsRecords \<Rightarrow>
                      let arnsName = find_arnsName arnsRecords pid in
                      if arnsName = []
                      then ([sub], Inl (Error ''Could not find ARNS name for the given process ID''))
                      else
                        ([sub],
                         Inr \<lparr>arnsUrl =
                                (if un = ''@'' \<or> un = []
                                 then ''https://'' @ arnsName @ ''.ar.io''
                                 else ''https://'' @ un @ ''_'' @ arnsName @ ''.ar.io''),
                              transactionId = or_default (res_id result) ''pending''\<rparr>))))"

text \<open>\<^verbatim>\<open>error instanceof Error ? error.message : 'Unknown error'\<close>.\<close>

fun message_of :: "exn \<Rightarrow> string" where
  "message_of (Error m) = m"
| "message_of Thrown = ''Unknown error''"

definition mock_result :: "string \<Rightarrow> migration_result" where
  "mock_result un =
     \<lparr>arnsUrl = (if un = ''@'' then ''https://example-arns.ar.io''
                 else ''https://'' @ un @ ''_example-arns.ar.io''),
      transactionId = ''mock-migration-tx-id''\<rparr>"

definition migrateToArns :: "world \<Rightarrow> string \<Rightarrow> string \<Rightarrow> string \<Rightarrow> submission list \<times> (exn + migration_result)" where
  "migrateToArns w pid un arweaveUrl =
     (case migrateToArns_try w pid un arweaveUrl of
        (subs, Inr r) \<Rightarrow> (subs, Inr r)
      | (subs, Inl error) \<Rightarrow>
          if node_env w = Some ''development'' then (subs, Inr (mock_result un))
          else (subs, Inl (Error (''Migration failed: '' @ message_of error))))"

section \<open>The form's checks: \<^verbatim>\<open>handleMigration\<close>\<close>

definition arweaveRegex :: "token list" where
  "arweaveRegex =
     [Bol, Lit ''https://'', Cls 1 None, Lit ''.arweave.net/'', Cls 1 None, Eol]"

text \<open>
  The two guards \<^verbatim>\<open>handleMigration\<close> runs before it calls \<^verbatim>\<open>migrateToArns\<close>: \<open>Some msg\<close> is
  the message given to \<^verbatim>\<open>setError\<close> before the early return, \<open>None\<close> means that the
  migration goes on.
\<close>

definition handleMigration_guard :: "string \<Rightarrow> string \<Rightarrow> string option" where
  "handleMigration_guard selectedArns arweaveUrl =
     (if selectedArns = [] \<or> arweaveUrl = []
      then Some ''Please select an ARNS name and enter an Arweave URL''
      else if \<not> rx_test arweaveRegex arweaveUrl
      then Some ''Please enter a valid arweave.net URL (e.g., https://example.arweave.net/txId)''
      else None)"

section \<open>The specification's reading of the utilities\<close>

text \<open>
  The definitions of this section follow the words of the specification, not the code,
  and are what the code is compared with.

  A content reference is a 43-character identifier over the base64url alphabet.
\<close>

definition id_segment :: "string \<Rightarrow> bool" where
  "id_segment c = (length c = 43 \<and> list_all idChar c)"

text \<open>
  Patterns (a) and (b), \<^verbatim>\<open><host>/<43-char-id>\<close>: the host, a slash and a content reference
  stand at index \<open>i\<close> of the URL; the pattern yields the reference at the first such index.
\<close>

definition host_match_at :: "string \<Rightarrow> string \<Rightarrow> nat \<Rightarrow> bool" where
  "host_match_at host url i =
     (take (length host + 1) (drop i url) = host @ ''/'' \<and>
      id_segment (take 43 (drop (i + length host + 1) url)))"

definition spec_host_pattern :: "string \<Rightarrow> string \<Rightarrow> string option" where
  "spec_host_pattern host url =
     (case find (host_match_at host url) [0 ..< Suc (length url)] of
        None \<Rightarrow> None
      | Some i \<Rightarrow> Some (take 43 (drop (i + length host + 1) url)))"

text \<open>Pattern (c), a trailing \<^verbatim>\<open>/<43-char-id>\<close>: the URL ends in a slash and a reference.\<close>

definition spec_trailing_pattern :: "string \<Rightarrow> string option" where
  "spec_trailing_pattern url =
     (let pre = take (length url - 43) url; c = drop (length url - 43) url
      in if pre \<noteq> [] \<and> last pre = CHR ''/'' \<and> id_segment c then Some c else None)"

text \<open>
  \<^verbatim>\<open>extractContentReference\<close>: the three patterns in order; the first that matches with a
  capture that is a content reference gives the result.
\<close>

definition spec_extractContentReference :: "string \<Rightarrow> string option" where
  "spec_extractContentReference url =
     first_some
       (map (\<lambda>p. case p url of
                   None \<Rightarrow> None
                 | Some c \<Rightarrow> if id_segment c then Some c else None)
            [spec_host_pattern ''arweave.net'', spec_host_pattern ''ar.io'',
             spec_trailing_pattern])"

text \<open>
  The last path segment of a URL: the text after its last slash, when there is a slash and
  that text is a non-empty run of characters of the identifier alphabet.
\<close>

definition trailing_segment :: "string \<Rightarrow> string option" where
  "trailing_segment url =
     (let seg = rev (takeWhile (\<lambda>c. c \<noteq> CHR ''/'') (rev url))
      in if CHR ''/'' \<in> set url \<and> seg \<noteq> [] \<and> list_all idChar seg then Some seg else None)"

text \<open>
  Ownership filtering: an entry is owned by an address when the query of its contract
  answers, and the owner it reports is that address. The name record of an entry has the
  root sub-name \<^verbatim>\<open>@\<close> by default.
\<close>

definition owned_by :: "world \<Rightarrow> string \<Rightarrow> string \<times> registry_record \<Rightarrow> bool" where
  "owned_by w addr e =
     (case ant_getInfo w (rec_processId (snd e)) of
        Inl error \<Rightarrow> False
      | Inr info \<Rightarrow> Owner info = addr)"

definition name_record :: "string \<times> registry_record \<Rightarrow> ArnsName" where
  "name_record e =
     \<lparr>name = fst e, processId = rec_processId (snd e),
      undername = Some (or_default (rec_undername (snd e)) ''@'')\<rparr>"

section \<open>Example worlds\<close>

text \<open>
  Three names: the contract of \<open>A\<close> reports the owner \<open>X\<close>, that of \<open>B\<close> the owner \<open>Y\<close>, and
  the query of the contract of \<open>C\<close> throws. \<open>C\<close> comes first in the snapshot.
\<close>

definition registry_ABC :: "(string \<times> registry_record) list" where
  "registry_ABC =
     [(''C'', \<lparr>rec_processId = ''pC'', rec_undername = None\<rparr>),
      (''A'', \<lparr>rec_processId = ''pA'', rec_undername = None\<rparr>),
      (''B'', \<lparr>rec_processId = ''pB'', rec_undername = Some ''www''\<rparr>)]"

definition getInfo_ABC :: "string \<Rightarrow> exn + ant_info" where
  "getInfo_ABC pid =
     (if pid = ''pA'' then Inr \<lparr>Owner = ''X''\<rparr>
      else if pid = ''pB'' then Inr \<lparr>Owner = ''Y''\<rparr>
      else Inl (Error ''contract unreachable''))"

definition accept_T1 :: "submission \<Rightarrow> exn + write_result" where
  "accept_T1 sub = Inr \<lparr>res_id = Some ''T1''\<rparr>"

definition reject_all :: "submission \<Rightarrow> exn + write_result" where
  "reject_all sub = Inl (Error ''rejected by the contract'')"

text \<open>A production world where every call but the query of \<open>C\<close> succeeds.\<close>

definition world_ABC :: world where
  "world_ABC =
     \<lparr>io_getArNSRecords = Inr registry_ABC, ant_getInfo = getInfo_ABC,
      arweaveWallet = True, ant_setUndernameRecord = accept_T1,
      clock = ''2024-01-01T00:00:00.000Z'', node_env = Some ''production''\<rparr>"

text \<open>The same with a contract that rejects every update, in production and in development.\<close>

definition world_reject :: world where
  "world_reject = world_ABC\<lparr>ant_setUndernameRecord := reject_all\<rparr>"

definition world_reject_dev :: world where
  "world_reject_dev = world_reject\<lparr>node_env := Some ''development''\<rparr>"

text \<open>The same as \<open>world_ABC\<close> without a wallet extension.\<close>

definition world_no_wallet :: world where
  "world_no_wallet = world_ABC\<lparr>arweaveWallet := False\<rparr>"

text \<open>Worlds whose registry cannot be fetched, in production and in development.\<close>

definition world_down :: world where
  "world_down = world_ABC\<lparr>io_getArNSRecords := Inl (Error ''network error'')\<rparr>"

definition world_down_dev :: world where
  "world_down_dev = world_down\<lparr>node_env := Some ''development''\<rparr>"

section \<open>Facts about the matcher\<close>

subsection \<open>Greedy repetition\<close>

lemma first_some_all_None: "(\<And>x. x \<in> set xs \<Longrightarrow> x = None) \<Longrightarrow> first_some xs = None"
  by (induction xs rule: first_some.induct) auto

lemma first_some_greedy:
  assumes "\<And>k. lo \<le> k \<Longrightarrow> k < mx \<Longrightarrow> f k = None"
  shows "first_some (map f (rev [lo ..< Suc mx])) = (if lo \<le> mx then f mx else None)"
proof (cases "lo \<le> mx")
  case True
  have rest: "first_some (map f (rev [lo ..< mx])) = None"
    by (rule first_some_all_None) (use assms in auto)
  from True have "rev [lo ..< Suc mx] = mx # rev [lo ..< mx]" by simp
  then show ?thesis using True rest by (cases "f mx") simp_all
next
  case False
  then show ?thesis by simp
qed

lemma idChar_not_dot [simp]: "\<not> idChar CHR ''.''"
  by (simp add: idChar_def)

lemma idChar_not_slash [simp]: "\<not> idChar CHR ''/''"
  by (simp add: idChar_def)

lemma avail_le_iff:
  "n \<le> length (takeWhile idChar s) \<longleftrightarrow> n \<le> length s \<and> list_all idChar (take n s)"
proof (induction s arbitrary: n)
  case Nil
  then show ?case by simp
next
  case (Cons c s)
  then show ?case by (cases n) auto
qed

lemma drop_in_run:
  assumes "k < length (takeWhile idChar s)"
  obtains c r where "drop k s = c # r" and "idChar c"
proof -
  from assms have k: "k < length s"
    using length_takeWhile_le [of idChar s] by simp
  have "idChar (takeWhile idChar s ! k)"
    using assms nth_mem set_takeWhileD by metis 
  then have "idChar (s ! k)" using assms by (simp add: takeWhile_nth)
  moreover have "drop k s = s ! k # drop (Suc k) s"
    using k by (simp add: Cons_nth_drop_Suc)
  ultimately show thesis using that by blast
qed

lemma run_lengths_exact:
  "run_lengths n (Some n) s = (if n \<le> length (takeWhile idChar s) then [n] else [])"
  by (simp add: run_lengths_def Let_def min_def)

lemma run_lengths_plus:
  "run_lengths lo None s = rev [lo ..< Suc (length (takeWhile idChar s))]"
  by (simp add: run_lengths_def Let_def)

text \<open>A repetition with an exact count has one candidate length.\<close>

lemma m_toks_cap_exact:
  "m_toks [CapCls n (Some n)] b s cap =
     (if n \<le> length s \<and> list_all idChar (take n s) then Some (Some (take n s)) else None)"
  by (simp add: run_lengths_exact avail_le_iff)

lemma m_toks_cap_exact_eol:
  "m_toks [CapCls n (Some n), Eol] b s cap =
     (if n = length s \<and> list_all idChar s then Some (Some s) else None)"
  by (auto simp add: run_lengths_exact avail_le_iff)

lemma m_toks_cls_exact_eol:
  "m_toks [Cls n (Some n), Eol] b s cap =
     (if n = length s \<and> list_all idChar s then Some cap else None)"
  by (auto simp add: run_lengths_exact avail_le_iff)

text \<open>
  After \<^verbatim>\<open>+\<close>, the end of the input (or a literal that starts outside the class) can only
  follow the whole run of class characters, so backtracking never finds a shorter match.
\<close>

lemma m_toks_plus_eol:
  "m_toks [CapCls 1 None, Eol] b s cap =
     (if s \<noteq> [] \<and> list_all idChar s then Some (Some s) else None)"
proof -
  let ?a = "length (takeWhile idChar s)"
  let ?f = "\<lambda>k. m_toks [Eol] (b \<and> k = 0) (drop k s) (Some (take k s))"
  have "\<And>k. 1 \<le> k \<Longrightarrow> k < ?a \<Longrightarrow> ?f k = None"
  proof -
    fix k assume "k < ?a"
    then obtain c r where "drop k s = c # r" by (rule drop_in_run)
    then show "?f k = None" by simp
  qed
  then have "first_some (map ?f (rev [1 ..< Suc ?a])) = (if 1 \<le> ?a then ?f ?a else None)"
    by (rule first_some_greedy)
  then have "m_toks [CapCls 1 None, Eol] b s cap = (if 1 \<le> ?a then ?f ?a else None)"
    by (simp add: run_lengths_plus)
  moreover have "drop ?a s = [] \<longleftrightarrow> list_all idChar s"
    using avail_le_iff [of "length s" s] length_takeWhile_le [of idChar s] by auto
  moreover have "1 \<le> ?a \<and> list_all idChar s \<longleftrightarrow> s \<noteq> [] \<and> list_all idChar s"
    by (cases s) (auto simp: list_all_iff)
  moreover have "list_all idChar s \<Longrightarrow> take ?a s = s"
    using avail_le_iff [of "length s" s] by auto
  ultimately show ?thesis by auto
qed

lemma m_toks_cls_plus_eol:
  "m_toks [Cls 1 None, Eol] b s cap =
     (if s \<noteq> [] \<and> list_all idChar s then Some cap else None)"
proof -
  let ?a = "length (takeWhile idChar s)"
  let ?f = "\<lambda>k. m_toks [Eol] (b \<and> k = 0) (drop k s) cap"
  have "\<And>k. 1 \<le> k \<Longrightarrow> k < ?a \<Longrightarrow> ?f k = None"
  proof -
    fix k assume "k < ?a"
    then obtain c r where "drop k s = c # r" by (rule drop_in_run)
    then show "?f k = None" by simp
  qed
  then have "first_some (map ?f (rev [1 ..< Suc ?a])) = (if 1 \<le> ?a then ?f ?a else None)"
    by (rule first_some_greedy)
  then have "m_toks [Cls 1 None, Eol] b s cap = (if 1 \<le> ?a then ?f ?a else None)"
    by (simp add: run_lengths_plus)
  moreover have "drop ?a s = [] \<longleftrightarrow> list_all idChar s"
    using avail_le_iff [of "length s" s] length_takeWhile_le [of idChar s] by auto
  moreover have "1 \<le> ?a \<and> list_all idChar s \<longleftrightarrow> s \<noteq> [] \<and> list_all idChar s"
    by (cases s) (auto simp: list_all_iff)
  ultimately show ?thesis by auto
qed

lemma m_toks_cls_plus_lit:
  assumes "\<not> idChar l"
  shows "m_toks (Cls 1 None # Lit (l # ls) # ts) b s cap =
     (if takeWhile idChar s \<noteq> []
      then m_toks (Lit (l # ls) # ts) False (dropWhile idChar s) cap else None)"
proof -
  let ?a = "length (takeWhile idChar s)"
  let ?f = "\<lambda>k. m_toks (Lit (l # ls) # ts) (b \<and> k = 0) (drop k s) cap"
  have "\<And>k. 1 \<le> k \<Longrightarrow> k < ?a \<Longrightarrow> ?f k = None"
  proof -
    fix k assume "k < ?a"
    then obtain c r where "drop k s = c # r" and "idChar c" by (rule drop_in_run)
    with assms show "?f k = None" by auto
  qed
  then have "first_some (map ?f (rev [1 ..< Suc ?a])) = (if 1 \<le> ?a then ?f ?a else None)"
    by (rule first_some_greedy)
  then have "m_toks (Cls 1 None # Lit (l # ls) # ts) b s cap = (if 1 \<le> ?a then ?f ?a else None)"
    by (simp add: run_lengths_plus)
  moreover have "drop ?a s = dropWhile idChar s"
    by (simp add: dropWhile_eq_drop)
  moreover have "1 \<le> ?a \<longleftrightarrow> takeWhile idChar s \<noteq> []"
    by (cases "takeWhile idChar s") auto
  ultimately show ?thesis by (cases "takeWhile idChar s") (simp_all del: m_toks.simps)
qed

subsection \<open>Literals, anchors and the search\<close>

lemma strip_lit_take:
  "strip_lit l s = (if take (length l) s = l then Some (drop (length l) s) else None)"
  by (induction l s rule: strip_lit.induct) auto

lemma strip_lit_Some_iff: "strip_lit l s = Some r \<longleftrightarrow> s = l @ r"
  by (induction l s rule: strip_lit.induct) auto

lemma rx_from_Bol_False: "rx_from (Bol # ts) False s = None"
  by (induction s) simp_all

lemma rx_match_Bol: "rx_match (Bol # ts) s = m_toks ts True s None"
  by (cases s) (simp_all add: rx_match_def rx_from_Bol_False split: option.splits)

lemma isValidArweaveId_iff: "isValidArweaveId s \<longleftrightarrow> length s = 43 \<and> list_all idChar s"
  unfolding isValidArweaveId_def rx_test_def rx_match_Bol m_toks_cls_exact_eol by auto

lemma rx_from_no_lit:
  assumes "list_all idChar s" and "\<not> list_all idChar l"
  shows "rx_from (Lit l # ts) b s = None"
  using assms(1)
proof (induction s arbitrary: b)
  case Nil
  with assms(2) show ?case by (cases l) auto
next
  case (Cons c s)
  have "strip_lit l (c # s) = None"
  proof (cases "strip_lit l (c # s)")
    case (Some r)
    then have "c # s = l @ r" by (simp add: strip_lit_Some_iff)
    then have "set l \<subseteq> set (c # s)" by (metis set_append Un_upper1)
    with Cons.prems assms(2) show ?thesis by (auto simp: list_all_iff)
  qed simp
  with Cons show ?case by simp
qed

lemma rx_from_slash_free:
  "CHR ''/'' \<notin> set s \<Longrightarrow> rx_from (Lit ''/'' # ts) b s = None"
  by (induction s arbitrary: b) auto

subsection \<open>The patterns of \<^verbatim>\<open>extractTransactionId\<close>\<close>

lemma id_segment_take:
  "id_segment (take 43 r) \<longleftrightarrow> 43 \<le> length r \<and> list_all idChar (take 43 r)"
  by (auto simp: id_segment_def min_def)

lemma m_toks_host:
  "m_toks [Lit (host @ ''/''), CapCls 43 (Some 43)] b (drop j url) cap =
     (if host_match_at host url j
      then Some (Some (take 43 (drop (j + length host + 1) url))) else None)"
  by (simp add: strip_lit_take m_toks_cap_exact host_match_at_def id_segment_take add.commute
      del: m_toks.simps(6))

lemma rx_from_host:
  "j \<le> length url \<Longrightarrow>
   rx_from [Lit (host @ ''/''), CapCls 43 (Some 43)] b (drop j url) =
     (case find (host_match_at host url) [j ..< Suc (length url)] of
        None \<Rightarrow> None
      | Some i \<Rightarrow> Some (Some (take 43 (drop (i + length host + 1) url))))"
proof (induction "length url - j" arbitrary: j b)
  case 0
  then have j: "j = length url" by simp
  have "rx_from [Lit (host @ ''/''), CapCls 43 (Some 43)] b (drop j url) =
        m_toks [Lit (host @ ''/''), CapCls 43 (Some 43)] b (drop j url) None"
    using j by simp
  also have "\<dots> = (if host_match_at host url j
      then Some (Some (take 43 (drop (j + length host + 1) url))) else None)"
    by (rule m_toks_host)
  finally show ?case using j by simp
next
  case (Suc n)
  then have j: "j < length url" by simp
  then have d: "drop j url = url ! j # drop (Suc j) url"
    by (simp add: Cons_nth_drop_Suc)
  have u: "[j ..< Suc (length url)] = j # [Suc j ..< Suc (length url)]"
    using j by (simp add: upt_conv_Cons)
  have ih: "rx_from [Lit (host @ ''/''), CapCls 43 (Some 43)] False (drop (Suc j) url) =
     (case find (host_match_at host url) [Suc j ..< Suc (length url)] of
        None \<Rightarrow> None
      | Some i \<Rightarrow> Some (Some (take 43 (drop (i + length host + 1) url))))"
    using Suc.hyps(1) [of "Suc j" False] Suc.hyps(2) j by simp
  have "rx_from [Lit (host @ ''/''), CapCls 43 (Some 43)] b (drop j url) =
        (case m_toks [Lit (host @ ''/''), CapCls 43 (Some 43)] b (drop j url) None of
           Some cap \<Rightarrow> Some cap
         | None \<Rightarrow> rx_from [Lit (host @ ''/''), CapCls 43 (Some 43)] False (drop (Suc j) url))"
    by (subst (1 2) d) simp
  then show ?case
    unfolding m_toks_host ih u by simp
qed

lemma rx_match_host:
  "rx_match [Lit (host @ ''/''), CapCls 43 (Some 43)] url =
     map_option Some (spec_host_pattern host url)"
  using rx_from_host [of 0 url host True]
  by (simp add: rx_match_def spec_host_pattern_def split: option.splits)

lemma rx_from_trailing:
  "rx_from [Lit ''/'', CapCls 43 (Some 43), Eol] b url =
     map_option Some (spec_trailing_pattern url)"
proof (induction url arbitrary: b)
  case Nil
  show ?case by (simp add: spec_trailing_pattern_def)
next
  case (Cons c s)
  have here: "m_toks [Lit ''/'', CapCls 43 (Some 43), Eol] b (c # s) None =
          (if c = CHR ''/'' \<and> id_segment s then Some (Some s) else None)"
    using m_toks_cap_exact_eol [of 43 False s None]
    by (auto simp add: id_segment_def simp del: m_toks.simps(6))
  have spec: "spec_trailing_pattern (c # s) =
          (if c = CHR ''/'' \<and> id_segment s then Some s else spec_trailing_pattern s)"
  proof -
    consider "length s < 43" | "length s = 43" | "43 < length s" by linarith
    then show ?thesis
    proof cases
      case 1
      then show ?thesis by (simp add: spec_trailing_pattern_def id_segment_def)
    next
      case 2
      then show ?thesis by (simp add: spec_trailing_pattern_def id_segment_def)
    next
      case 3
      then obtain k where k: "length s - 43 = Suc k" by (cases "length s - 43") auto
      then have "Suc (length s) - 43 = Suc (Suc k)" by simp
      moreover have "take (Suc k) s \<noteq> []" using 3 by (cases s) auto
      ultimately show ?thesis using 3 k
        by (simp add: spec_trailing_pattern_def id_segment_def)
    qed
  qed
  show ?case
    unfolding rx_from.simps here spec using Cons.IH [of False] by simp
qed

lemma rx_match_trailing:
  "rx_match [Lit ''/'', CapCls 43 (Some 43), Eol] url =
     map_option Some (spec_trailing_pattern url)"
  by (simp add: rx_match_def rx_from_trailing)

lemma isValid_id_segment: "isValidArweaveId c = id_segment c"
  by (simp add: isValidArweaveId_iff id_segment_def)

lemma extract_loop_valid: "extract_loop ps url = Some r \<Longrightarrow> isValidArweaveId r"
  by (induction ps) (auto split: option.splits if_splits)

lemma extract_arweave_net:
  assumes "43 \<le> length seg" and "list_all idChar (take 43 seg)"
  shows "extractTransactionId (''https://x.arweave.net/'' @ seg) = Some (take 43 seg)"
proof -
  have "rx_match [Lit ''arweave.net/'', CapCls 43 (Some 43)] (''https://x.arweave.net/'' @ seg)
          = Some (Some (take 43 seg))"
    using assms by (simp add: rx_match_def m_toks_cap_exact del: m_toks.simps(6))
  moreover have "isValidArweaveId (take 43 seg)"
    using assms by (simp add: isValidArweaveId_iff)
  ultimately show ?thesis
    by (simp add: extractTransactionId_def patterns_def)
qed

lemma extract_ar_io:
  assumes "length r = 43" and "list_all idChar r"
  shows "extractTransactionId (''https://x.ar.io/'' @ r) = Some r"
proof -
  have "rx_from [Lit ''arweave.net/'', CapCls 43 (Some 43)] False r = None"
    using assms(2) by (intro rx_from_no_lit) simp_all
  then have a: "rx_match [Lit ''arweave.net/'', CapCls 43 (Some 43)] (''https://x.ar.io/'' @ r) = None"
    by (simp add: rx_match_def del: m_toks.simps(6))
  have b: "rx_match [Lit ''ar.io/'', CapCls 43 (Some 43)] (''https://x.ar.io/'' @ r) = Some (Some r)"
    using assms by (simp add: rx_match_def m_toks_cap_exact del: m_toks.simps(6))
  have "isValidArweaveId r"
    using assms by (simp add: isValidArweaveId_iff)
  with a b show ?thesis
    by (simp add: extractTransactionId_def patterns_def)
qed

subsection \<open>The patterns of \<^verbatim>\<open>handleMigration\<close> and \<^verbatim>\<open>migrateToArns\<close>\<close>

lemma arweaveRegex_match:
  "rx_match arweaveRegex url =
     (case strip_lit ''https://'' url of
        None \<Rightarrow> None
      | Some r \<Rightarrow>
          if takeWhile idChar r = [] then None
          else (case strip_lit ''.arweave.net/'' (dropWhile idChar r) of
                  None \<Rightarrow> None
                | Some seg \<Rightarrow> if seg \<noteq> [] \<and> list_all idChar seg then Some None else None))"
  unfolding arweaveRegex_def rx_match_Bol
  by (simp add: m_toks_cls_plus_lit m_toks_cls_plus_eol del: m_toks.simps(5) One_nat_def split: option.splits)

lemma arweaveRegex_iff:
  "rx_test arweaveRegex url \<longleftrightarrow>
     (\<exists>sub seg. url = ''https://'' @ sub @ ''.arweave.net/'' @ seg \<and>
        sub \<noteq> [] \<and> list_all idChar sub \<and> seg \<noteq> [] \<and> list_all idChar seg)"
  (is "?l \<longleftrightarrow> ?r")
proof
  assume ?l
  then obtain r seg where r: "strip_lit ''https://'' url = Some r"
    and t: "takeWhile idChar r \<noteq> []"
    and s: "strip_lit ''.arweave.net/'' (dropWhile idChar r) = Some seg"
    and g: "seg \<noteq> []" "list_all idChar seg"
    unfolding rx_test_def arweaveRegex_match
    by (auto split: option.splits if_splits)
  from r have "url = ''https://'' @ r" by (simp only: strip_lit_Some_iff)
  moreover from s have "dropWhile idChar r = ''.arweave.net/'' @ seg"
    by (simp only: strip_lit_Some_iff)
  then have "r = takeWhile idChar r @ ''.arweave.net/'' @ seg"
    using takeWhile_dropWhile_id [of idChar r] by simp
  moreover have "list_all idChar (takeWhile idChar r)"
    by (auto simp: list_all_iff dest: set_takeWhileD)
  ultimately show ?r using t g by metis
next
  assume ?r
  then obtain sub seg where u: "url = ''https://'' @ sub @ ''.arweave.net/'' @ seg"
    and sub: "sub \<noteq> []" "list_all idChar sub" and seg: "seg \<noteq> []" "list_all idChar seg"
    by blast
  have r: "strip_lit ''https://'' url = Some (sub @ ''.arweave.net/'' @ seg)"
    by (simp only: strip_lit_Some_iff u)
  have tw: "takeWhile idChar (sub @ ''.arweave.net/'' @ seg) = sub"
    using sub(2) by (simp add: list_all_iff)
  have dw: "dropWhile idChar (sub @ ''.arweave.net/'' @ seg) = ''.arweave.net/'' @ seg"
    using sub(2) by (simp add: list_all_iff)
  have "strip_lit ''.arweave.net/'' (''.arweave.net/'' @ seg) = Some seg"
    by (simp only: strip_lit_Some_iff)
  then show ?l
    unfolding rx_test_def arweaveRegex_match r using tw dw sub seg by simp
qed

lemma rx_from_txId:
  "rx_from txIdPattern b url = map_option Some (trailing_segment url)"
proof (induction url arbitrary: b)
  case Nil
  show ?case by (simp add: txIdPattern_def trailing_segment_def)
next
  case (Cons c s)
  have here: "m_toks txIdPattern b (c # s) None =
          (if c = CHR ''/'' \<and> s \<noteq> [] \<and> list_all idChar s then Some (Some s) else None)"
    using m_toks_plus_eol [of False s None]
    by (auto simp add: txIdPattern_def simp del: m_toks.simps(6))
  show ?case
  proof (cases "CHR ''/'' \<in> set s")
    case True
    then have "takeWhile (\<lambda>c. c \<noteq> CHR ''/'') (rev s @ [c]) = takeWhile (\<lambda>c. c \<noteq> CHR ''/'') (rev s)"
      by (intro takeWhile_append1 [of "CHR ''/''"]) auto
    then have "trailing_segment (c # s) = trailing_segment s"
      using True by (simp add: trailing_segment_def)
    moreover have "\<not> list_all idChar s"
      using True idChar_not_slash by (metis list_all_iff)
    ultimately show ?thesis
      unfolding rx_from.simps here using Cons.IH [of False] by simp
  next
    case False
    then have tw: "takeWhile (\<lambda>c. c \<noteq> CHR ''/'') (rev s @ [c]) = rev s @ takeWhile (\<lambda>c. c \<noteq> CHR ''/'') [c]"
      by (intro takeWhile_append2) auto
    have none: "rx_from txIdPattern False s = None"
      using False unfolding txIdPattern_def by (rule rx_from_slash_free)
    have "trailing_segment (c # s) =
            (if c = CHR ''/'' \<and> s \<noteq> [] \<and> list_all idChar s then Some s else None)"
      using False tw by (auto simp add: trailing_segment_def)
    then show ?thesis
      unfolding rx_from.simps here none by simp
  qed
qed

lemma rx_match_txId: "rx_match txIdPattern url = map_option Some (trailing_segment url)"
  by (simp add: rx_match_def rx_from_txId)

lemma trailing_segment_iff:
  "trailing_segment url = Some seg \<longleftrightarrow>
     (\<exists>pre. url = pre @ ''/'' @ seg) \<and> seg \<noteq> [] \<and> list_all idChar seg"
  (is "?l \<longleftrightarrow> ?r")
proof
  let ?P = "\<lambda>c. c \<noteq> CHR ''/''"
  assume l: ?l
  then have seg: "seg = rev (takeWhile ?P (rev url))" and sl: "CHR ''/'' \<in> set url"
    and ne: "seg \<noteq> []" and ids: "list_all idChar seg"
    by (auto simp: trailing_segment_def Let_def split: if_splits)
  have "dropWhile ?P (rev url) \<noteq> []"
    using sl by (simp add: dropWhile_eq_Nil_conv) 
  then obtain d ds where d: "dropWhile ?P (rev url) = d # ds" by (cases "dropWhile ?P (rev url)") auto
  then have "d = CHR ''/''" using hd_dropWhile [of ?P "rev url"] by auto
  with d have "rev url = takeWhile ?P (rev url) @ CHR ''/'' # ds"
    using takeWhile_dropWhile_id [of ?P "rev url"] by simp
  then have "url = rev ds @ ''/'' @ seg"
    using seg by (metis append_Cons append_Nil append.assoc rev.simps(2) rev_append rev_rev_ident)
  then show ?r using ne ids by blast
next
  assume ?r
  then obtain pre where u: "url = pre @ ''/'' @ seg" and ne: "seg \<noteq> []" and ids: "list_all idChar seg"
    by blast
  have "CHR ''/'' \<notin> set seg" using ids by (auto simp: list_all_iff)
  then have "takeWhile (\<lambda>c. c \<noteq> CHR ''/'') (rev seg @ CHR ''/'' # rev pre) = rev seg"
    by (auto simp add: takeWhile_tail)
  then show ?l using u ne ids by (simp add: trailing_segment_def)
qed

lemma rx_match_txId_Some:
  assumes "url = pre @ ''/'' @ seg" and "seg \<noteq> []" and "list_all idChar seg"
  shows "rx_match txIdPattern url = Some (Some seg)"
proof -
  have "trailing_segment url = Some seg"
    using assms unfolding trailing_segment_iff by blast
  then show ?thesis by (simp add: rx_match_txId)
qed

text \<open>
  On a URL that the form accepts, pattern (a) can only match at the host: inside the
  sub-domain a match would need \<^verbatim>\<open>.net/\<close> where the URL has \<^verbatim>\<open>.arweave\<close>.
\<close>

lemma strip_host_in_run:
  assumes "list_all idChar ys" and "ys \<noteq> []"
  shows "strip_lit ''arweave.net/'' (ys @ ''.arweave.net/'' @ seg) = None"
proof (cases "strip_lit ''arweave.net/'' (ys @ ''.arweave.net/'' @ seg)")
  case (Some r)
  then have e: "ys @ ''.arweave.net/'' @ seg = ''arweave.net/'' @ r"
    by (simp only: strip_lit_Some_iff)
  have "takeWhile idChar (ys @ ''.arweave.net/'' @ seg) = ys"
    using assms(1) by (simp add: list_all_iff)
  moreover have "takeWhile idChar (''arweave.net/'' @ r) = ''arweave''"
    by (simp add: idChar_def)
  ultimately have "ys = ''arweave''" using e by simp
  with e show ?thesis by simp
qed simp

lemma rx_from_host_after_run:
  assumes "list_all idChar xs" and "43 \<le> length seg" and "list_all idChar (take 43 seg)"
  shows "rx_from [Lit ''arweave.net/'', CapCls 43 (Some 43)] b (xs @ ''.arweave.net/'' @ seg) =
           Some (Some (take 43 seg))"
  using assms(1)
proof (induction xs arbitrary: b)
  case Nil
  show ?case using assms(2,3) by (simp add: m_toks_cap_exact del: m_toks.simps(6))
next
  case (Cons x xs)
  have "strip_lit ''arweave.net/'' ((x # xs) @ ''.arweave.net/'' @ seg) = None"
    using Cons.prems by (intro strip_host_in_run) simp_all
  then have "m_toks [Lit ''arweave.net/'', CapCls 43 (Some 43)] b ((x # xs) @ ''.arweave.net/'' @ seg) None = None"
    by (simp del: strip_lit.simps)
  moreover have "rx_from [Lit ''arweave.net/'', CapCls 43 (Some 43)] False (xs @ ''.arweave.net/'' @ seg) =
           Some (Some (take 43 seg))"
    using Cons by simp
  ultimately show ?case by (simp del: m_toks.simps)
qed

lemma extract_form_url:
  assumes "list_all idChar sub" and "length seg = 43" and "list_all idChar seg"
  shows "extractTransactionId (''https://'' @ sub @ ''.arweave.net/'' @ seg) = Some seg"
proof -
  have "rx_from [Lit ''arweave.net/'', CapCls 43 (Some 43)] False (sub @ ''.arweave.net/'' @ seg) =
           Some (Some (take 43 seg))"
    using assms by (intro rx_from_host_after_run) simp_all
  then have "rx_match [Lit ''arweave.net/'', CapCls 43 (Some 43)]
               (''https://'' @ sub @ ''.arweave.net/'' @ seg) = Some (Some seg)"
    using assms(2) by (simp add: rx_match_def del: m_toks.simps(6))
  moreover have "isValidArweaveId seg"
    using assms by (simp add: isValidArweaveId_iff)
  ultimately show ?thesis
    by (simp add: extractTransactionId_def patterns_def)
qed

subsection \<open>The loops over the registry\<close>

lemma scan_records_filter:
  "scan_records w a es acc = acc @ map name_record (filter (owned_by w a) es)"
  by (induction es arbitrary: acc)
     (auto simp: owned_by_def name_record_def split: sum.splits)

lemma find_arnsName_find:
  "find_arnsName entries pid =
     (case find (\<lambda>e. rec_processId (snd e) = pid) entries of None \<Rightarrow> [] | Some e \<Rightarrow> fst e)"
  by (induction entries pid rule: find_arnsName.induct) simp_all

section \<open>Properties of the URL and identifier utilities\<close>

text \<open>
  C5: for every URL, \<^verbatim>\<open>extractTransactionId\<close> tries the three patterns in the order
  (a) \<^verbatim>\<open>arweave.net/<43-char-id>\<close>, (b) \<^verbatim>\<open>ar.io/<43-char-id>\<close>, (c) a trailing
  \<^verbatim>\<open>/<43-char-id>\<close>, and returns the capture of the first pattern that matches with a
  capture that is a valid content reference; it returns nothing when no pattern matches.
  The loop over the three regular expressions computes what the specification's
  description of the three patterns computes.
\<close>

theorem extractTransactionId_patterns_in_order:
  "extractTransactionId url = spec_extractContentReference url"
proof -
  have a: "rx_match [Lit ''arweave.net/'', CapCls 43 (Some 43)] url =
           map_option Some (spec_host_pattern ''arweave.net'' url)"
    using rx_match_host [of "''arweave.net''" url] by simp
  have b: "rx_match [Lit ''ar.io/'', CapCls 43 (Some 43)] url =
           map_option Some (spec_host_pattern ''ar.io'' url)"
    using rx_match_host [of "''ar.io''" url] by simp
  show ?thesis
    unfolding extractTransactionId_def patterns_def spec_extractContentReference_def
      extract_loop.simps a b rx_match_trailing isValid_id_segment
    by (simp split: option.splits)
qed

text \<open>
  An input on which pattern (b) and pattern (c) both match, with different captures: the
  earlier pattern gives the result.
\<close>

theorem extractTransactionId_patterns_in_order_witness:
  "spec_extractContentReference
     ''https://ar.io/BBBBBBBBBBBBBBBBBBBBBBBBBBBBBBBBBBBBBBBBBBB/CCCCCCCCCCCCCCCCCCCCCCCCCCCCCCCCCCCCCCCCCCC'' =
   Some ''BBBBBBBBBBBBBBBBBBBBBBBBBBBBBBBBBBBBBBBBBBB''"
proof -
  have "extractTransactionId
     ''https://ar.io/BBBBBBBBBBBBBBBBBBBBBBBBBBBBBBBBBBBBBBBBBBB/CCCCCCCCCCCCCCCCCCCCCCCCCCCCCCCCCCCCCCCCCCC'' =
     Some ''BBBBBBBBBBBBBBBBBBBBBBBBBBBBBBBBBBBBBBBBBBB''"
    by code_simp
  then show ?thesis
    unfolding extractTransactionId_patterns_in_order .
qed

text \<open>
  C9: every value \<^verbatim>\<open>extractTransactionId\<close> returns is a valid content reference: it passes
  \<^verbatim>\<open>isValidArweaveId\<close>, that is, it has exactly 43 characters, all of them in
  \<^verbatim>\<open>[A-Za-z0-9_-]\<close>.
\<close>

theorem extractTransactionId_result_valid:
  assumes "extractTransactionId url = Some r"
  shows "isValidArweaveId r \<and> length r = 43 \<and> list_all idChar r"
  using assms extract_loop_valid [of patterns url r] isValidArweaveId_iff [of r]
  by (simp add: extractTransactionId_def)

theorem extractTransactionId_result_valid_witness:
  "extractTransactionId ''https://arweave.net/abcdefghijklmnopqrstuvwxyzABCDEFGHIJKLM01_-?x=1'' =
     Some ''abcdefghijklmnopqrstuvwxyzABCDEFGHIJKLM01_-'' \<and>
   isValidArweaveId ''abcdefghijklmnopqrstuvwxyzABCDEFGHIJKLM01_-'' \<and>
   length ''abcdefghijklmnopqrstuvwxyzABCDEFGHIJKLM01_-'' = 43 \<and>
   list_all idChar ''abcdefghijklmnopqrstuvwxyzABCDEFGHIJKLM01_-''"
proof -
  have e: "extractTransactionId ''https://arweave.net/abcdefghijklmnopqrstuvwxyzABCDEFGHIJKLM01_-?x=1'' =
     Some ''abcdefghijklmnopqrstuvwxyzABCDEFGHIJKLM01_-''"
    by code_simp
  from extractTransactionId_result_valid [OF e] e show ?thesis
    by (simp only: simp_thms)
qed

text \<open>
  C6 (round trip): for every 43-character reference \<open>r\<close> over \<^verbatim>\<open>[A-Za-z0-9_-]\<close> and every
  host \<open>h\<close> among \<^verbatim>\<open>arweave.net\<close> and \<^verbatim>\<open>ar.io\<close>, \<^verbatim>\<open>extractTransactionId\<close> applied to
  \<^verbatim>\<open>"https://x." + h + "/" + r\<close> returns \<open>r\<close>.
\<close>

theorem extractTransactionId_round_trip:
  assumes "length r = 43" and "list_all idChar r" and "h = ''arweave.net'' \<or> h = ''ar.io''"
  shows "extractTransactionId (''https://x.'' @ h @ ''/'' @ r) = Some r"
  using assms extract_arweave_net [of r] extract_ar_io [of r] by auto

theorem extractTransactionId_round_trip_witness:
  "extractTransactionId (''https://x.'' @ ''ar.io'' @ ''/'' @ ''abcdefghijklmnopqrstuvwxyzABCDEFGHIJKLM01_-'') =
     Some ''abcdefghijklmnopqrstuvwxyzABCDEFGHIJKLM01_-''"
  using extractTransactionId_round_trip [of "''abcdefghijklmnopqrstuvwxyzABCDEFGHIJKLM01_-''" "''ar.io''"]
  by (simp add: idChar_def)

text \<open>
  C10: there are URLs whose last path segment is longer than 43 characters of the
  identifier alphabet on which \<^verbatim>\<open>extractTransactionId\<close> returns the first 43 characters of
  the segment and not nothing: every URL \<^verbatim>\<open>https://x.arweave.net/<segment>\<close> with such a
  segment is one, since pattern (a) is not anchored at the end of the segment.
\<close>

theorem extractTransactionId_long_segment:
  assumes "43 < length seg" and "list_all idChar seg"
  shows "extractTransactionId (''https://x.arweave.net/'' @ seg) = Some (take 43 seg)"
proof -
  have "list_all idChar (take 43 seg)"
    using assms(2) by (auto simp: list_all_iff dest: in_set_takeD)
  then show ?thesis using assms(1) extract_arweave_net [of seg] by simp
qed

text \<open>The example of the claim: 44 characters after the host.\<close>

theorem extractTransactionId_long_segment_witness:
  "extractTransactionId (''https://x.arweave.net/'' @ ''abcdefghijklmnopqrstuvwxyzABCDEFGHIJKLM01_-Z'') =
     Some ''abcdefghijklmnopqrstuvwxyzABCDEFGHIJKLM01_-''"
  using extractTransactionId_long_segment [of "''abcdefghijklmnopqrstuvwxyzABCDEFGHIJKLM01_-Z''"]
  by (simp add: idChar_def)

section \<open>Properties of the form's URL check\<close>

text \<open>
  C7: the content-URL check of the form accepts a string if and only if the whole string
  matches \<^verbatim>\<open>^https://[a-zA-Z0-9_-]+\.arweave\.net/[a-zA-Z0-9_-]+$\<close>, that is, it is
  \<^verbatim>\<open>https://\<close>, a non-empty run of class characters, \<^verbatim>\<open>.arweave.net/\<close> and a non-empty run of
  class characters up to the end. So \<^verbatim>\<open>https://foo.arweave.net/<segment>\<close> is accepted for
  every non-empty segment over the class, while \<^verbatim>\<open>http://foo.arweave.net/abc123\<close> and
  \<^verbatim>\<open>https://foo.arweave.net/\<close> are rejected. (With a name selected, the check is all that
  \<^verbatim>\<open>handleMigration\<close> asks of the URL.)
\<close>

theorem handleMigration_url_check:
  assumes "selectedArns \<noteq> []"
  shows "(handleMigration_guard selectedArns url = None \<longleftrightarrow>
            (\<exists>sub seg. url = ''https://'' @ sub @ ''.arweave.net/'' @ seg \<and>
               sub \<noteq> [] \<and> list_all idChar sub \<and> seg \<noteq> [] \<and> list_all idChar seg)) \<and>
         (s \<noteq> [] \<and> list_all idChar s \<longrightarrow>
            handleMigration_guard selectedArns (''https://foo.arweave.net/'' @ s) = None) \<and>
         handleMigration_guard selectedArns ''http://foo.arweave.net/abc123'' \<noteq> None \<and>
         handleMigration_guard selectedArns ''https://foo.arweave.net/'' \<noteq> None"
proof -
  have guard: "handleMigration_guard selectedArns u = None \<longleftrightarrow> rx_test arweaveRegex u" for u
  proof (cases "u = []")
    case True
    then show ?thesis
      by (simp add: handleMigration_guard_def rx_test_def arweaveRegex_match)
  next
    case False
    with assms show ?thesis by (simp add: handleMigration_guard_def)
  qed
  have "rx_test arweaveRegex (''https://foo.arweave.net/'' @ s)"
    if "s \<noteq> []" and "list_all idChar s"
  proof -
    have "''https://foo.arweave.net/'' @ s = ''https://'' @ ''foo'' @ ''.arweave.net/'' @ s"
      by simp
    moreover have "list_all idChar ''foo''" by (simp add: idChar_def)
    ultimately show ?thesis
      using that unfolding arweaveRegex_iff by blast
  qed
  moreover have "\<not> rx_test arweaveRegex ''http://foo.arweave.net/abc123''"
    by (simp add: rx_test_def arweaveRegex_match)
  moreover have "\<not> rx_test arweaveRegex ''https://foo.arweave.net/''"
    by (simp add: rx_test_def arweaveRegex_match idChar_def)
  ultimately show ?thesis
    unfolding guard arweaveRegex_iff [symmetric] by simp
qed

theorem handleMigration_url_check_witness:
  "handleMigration_guard ''A'' ''https://foo.arweave.net/abc123'' = None \<and>
   handleMigration_guard ''A'' ''http://foo.arweave.net/abc123'' \<noteq> None \<and>
   handleMigration_guard ''A'' ''https://foo.arweave.net/'' \<noteq> None"
  using handleMigration_url_check
    [where selectedArns = "''A''" and s = "''abc123''" and url = "''https://foo.arweave.net/abc123''"]
  by (simp add: idChar_def)

section \<open>Properties of the name directory lookup\<close>

text \<open>
  C1: for every registry snapshot and every queried address, \<^verbatim>\<open>getArnsNames\<close> returns
  exactly the name records of the entries whose contract reports an owner that is equal,
  as a string, to the queried address, in the order of the snapshot. An entry whose
  ownership query throws is left out, and the entries after it are still scanned.
\<close>

theorem getArnsNames_owned_names:
  assumes "io_getArNSRecords w = Inr entries"
  shows "getArnsNames w addr = Inr (map name_record (filter (owned_by w addr) entries))"
  using assms by (simp add: getArnsNames_def getArnsNames_try_def scan_records_filter)

text \<open>
  The example of the specification: the records \<open>A\<close>, \<open>B\<close>, \<open>C\<close> and the address \<open>X\<close>. The
  throwing entry \<open>C\<close> is scanned first, and \<open>A\<close> and \<open>B\<close> after it are still found. The
  address \<open>x\<close> differs from the owner \<open>X\<close> in case only and owns nothing.
\<close>

theorem getArnsNames_owned_names_witness:
  "getArnsNames world_ABC ''X'' =
     Inr [\<lparr>name = ''A'', processId = ''pA'', undername = Some ''@''\<rparr>] \<and>
   getArnsNames world_ABC ''Y'' =
     Inr [\<lparr>name = ''B'', processId = ''pB'', undername = Some ''www''\<rparr>] \<and>
   getArnsNames world_ABC ''x'' = Inr []"
  using getArnsNames_owned_names [of world_ABC registry_ABC "''X''"]
    getArnsNames_owned_names [of world_ABC registry_ABC "''Y''"]
    getArnsNames_owned_names [of world_ABC registry_ABC "''x''"]
  by (simp add: world_ABC_def registry_ABC_def owned_by_def name_record_def getInfo_ABC_def
      or_default_def)

text \<open>
  When the registry cannot be fetched and \<^verbatim>\<open>NODE_ENV\<close> is \<^verbatim>\<open>development\<close>, the lookup does
  not fail: it returns the two mock records.
\<close>

theorem getArnsNames_dev_fallback_counterexample:
  "io_getArNSRecords world_down_dev = Inl (Error ''network error'') \<and>
   getArnsNames world_down_dev ''X'' = Inr mock_names"
  by (simp add: world_down_dev_def world_down_def world_ABC_def getArnsNames_def getArnsNames_try_def)

text \<open>
  C4, as the code has it: \<^verbatim>\<open>getArnsNames\<close> fails if and only if the fetch of the registry
  fails and \<^verbatim>\<open>NODE_ENV\<close> is not \<^verbatim>\<open>development\<close>; when it fails, the error is the one with
  the message \<^verbatim>\<open>Failed to fetch ARNS names. Please try again.\<close> and no list is returned.
  When the fetch fails in development mode, the two mock records are returned.
\<close>

theorem getArnsNames_failure:
  "(isl (getArnsNames w addr) \<longleftrightarrow>
      isl (io_getArNSRecords w) \<and> node_env w \<noteq> Some ''development'') \<and>
   (isl (getArnsNames w addr) \<longrightarrow>
      getArnsNames w addr = Inl (Error ''Failed to fetch ARNS names. Please try again.'')) \<and>
   (isl (io_getArNSRecords w) \<and> node_env w = Some ''development'' \<longrightarrow>
      getArnsNames w addr = Inr mock_names)"
  by (cases "io_getArNSRecords w") (simp_all add: getArnsNames_def getArnsNames_try_def)

theorem getArnsNames_failure_witness:
  "getArnsNames world_down ''X'' = Inl (Error ''Failed to fetch ARNS names. Please try again.'') \<and>
   getArnsNames world_down_dev ''X'' = Inr mock_names"
  using getArnsNames_failure [of world_down "''X''"] getArnsNames_failure [of world_down_dev "''X''"]
  by (simp add: world_down_dev_def world_down_def world_ABC_def)

section \<open>Properties of the migration executor\<close>

text \<open>
  A URL that the form accepts, with a segment that is no content reference:
  \<^verbatim>\<open>extractTransactionId\<close> finds nothing in it, and \<^verbatim>\<open>migrateToArns\<close> submits its segment
  and succeeds.
\<close>

theorem migrateToArns_own_pattern_counterexample:
  "handleMigration_guard ''A'' ''https://foo.arweave.net/abc123'' = None \<and>
   extractTransactionId ''https://foo.arweave.net/abc123'' = None \<and>
   migrateToArns world_ABC ''pA'' ''@'' ''https://foo.arweave.net/abc123'' =
     ([make_submission world_ABC ''pA'' ''@'' ''https://foo.arweave.net/abc123'' (Some ''abc123'')],
      Inr \<lparr>arnsUrl = ''https://A.ar.io'', transactionId = ''T1''\<rparr>)"
proof -
  have "rx_test arweaveRegex ''https://foo.arweave.net/abc123''"
    by (simp add: rx_test_def arweaveRegex_match idChar_def)
  then have "handleMigration_guard ''A'' ''https://foo.arweave.net/abc123'' = None"
    by (simp add: handleMigration_guard_def)
  moreover have "extractTransactionId ''https://foo.arweave.net/abc123'' = None"
    by code_simp
  moreover have "rx_match txIdPattern ''https://foo.arweave.net/abc123'' = Some (Some ''abc123'')"
    by (rule rx_match_txId_Some [where pre = "''https://foo.arweave.net''"])
       (simp_all add: idChar_def)
  then have "migrateToArns world_ABC ''pA'' ''@'' ''https://foo.arweave.net/abc123'' =
     ([make_submission world_ABC ''pA'' ''@'' ''https://foo.arweave.net/abc123'' (Some ''abc123'')],
      Inr \<lparr>arnsUrl = ''https://A.ar.io'', transactionId = ''T1''\<rparr>)"
    by (simp add: migrateToArns_def migrateToArns_try_def world_ABC_def registry_ABC_def
        accept_T1_def or_default_def)
  ultimately show ?thesis by (simp only: simp_thms)
qed

text \<open>
  C2, as the code has it: \<^verbatim>\<open>migrateToArns\<close> does not call \<^verbatim>\<open>extractTransactionId\<close>. It takes
  group 1 of its own pattern \<^verbatim>\<open>/\/([a-zA-Z0-9_-]+)$/\<close>, which is the last path segment of the
  URL whatever its length, and submits that.
  \<^item> When the URL has no such segment, the body throws \<^verbatim>\<open>Invalid Arweave URL format\<close>
    before anything is submitted, and outside development mode the caller gets
    \<^verbatim>\<open>Migration failed: Invalid Arweave URL format\<close>.
  \<^item> When it has one, that error is not raised: without a wallet the body throws
    \<^verbatim>\<open>ArConnect wallet not found\<close>, and with a wallet exactly one submission is made, with
    the segment as transaction identifier.
  \<^item> For a URL that the form accepts and whose segment has 43 characters, the segment is
    also what \<^verbatim>\<open>extractTransactionId\<close> returns.
\<close>

theorem migrateToArns_extraction:
  "(trailing_segment url = None \<longrightarrow>
      migrateToArns_try w pid un url = ([], Inl (Error ''Invalid Arweave URL format''))) \<and>
   (trailing_segment url = None \<and> node_env w \<noteq> Some ''development'' \<longrightarrow>
      migrateToArns w pid un url =
        ([], Inl (Error ''Migration failed: Invalid Arweave URL format''))) \<and>
   (trailing_segment url = Some seg \<and> \<not> arweaveWallet w \<longrightarrow>
      migrateToArns_try w pid un url = ([], Inl (Error ''ArConnect wallet not found''))) \<and>
   (trailing_segment url = Some seg \<and> arweaveWallet w \<longrightarrow>
      fst (migrateToArns w pid un url) = [make_submission w pid un url (Some seg)]) \<and>
   (rx_test arweaveRegex url \<and> trailing_segment url = Some seg \<and> length seg = 43 \<longrightarrow>
      extractTransactionId url = Some seg)"
proof -
  have none: "migrateToArns_try w pid un url = ([], Inl (Error ''Invalid Arweave URL format''))"
    if "trailing_segment url = None"
    using that by (simp add: migrateToArns_try_def rx_match_txId)
  have wallet: "migrateToArns_try w pid un url = ([], Inl (Error ''ArConnect wallet not found''))"
    if "trailing_segment url = Some seg" and "\<not> arweaveWallet w"
    using that by (simp add: migrateToArns_try_def rx_match_txId)
  have sub: "fst (migrateToArns w pid un url) = [make_submission w pid un url (Some seg)]"
    if "trailing_segment url = Some seg" and "arweaveWallet w"
    using that
    by (simp add: migrateToArns_def migrateToArns_try_def rx_match_txId Let_def
        split: sum.splits)
  have agree: "extractTransactionId url = Some seg"
    if acc: "rx_test arweaveRegex url" and t: "trailing_segment url = Some seg"
      and len: "length seg = 43"
  proof -
    from acc obtain sub s where u: "url = ''https://'' @ sub @ ''.arweave.net/'' @ s"
      and ids: "list_all idChar sub" and s: "s \<noteq> []" "list_all idChar s"
      unfolding arweaveRegex_iff by blast
    from u have "url = (''https://'' @ sub @ ''.arweave.net'') @ ''/'' @ s" by simp
    with s have "trailing_segment url = Some s"
      unfolding trailing_segment_iff by blast
    with t have "s = seg" by simp
    with u have "url = ''https://'' @ sub @ ''.arweave.net/'' @ seg" by simp
    moreover have "extractTransactionId (''https://'' @ sub @ ''.arweave.net/'' @ seg) = Some seg"
      using ids len \<open>s = seg\<close> s(2) by (intro extract_form_url) simp_all
    ultimately show ?thesis by (simp only:)
  qed
  from none wallet sub agree show ?thesis
    by (simp add: migrateToArns_def)
qed

theorem migrateToArns_extraction_witness:
  "migrateToArns world_ABC ''pA'' ''@'' ''not a url'' =
     ([], Inl (Error ''Migration failed: Invalid Arweave URL format'')) \<and>
   migrateToArns_try world_no_wallet ''pA'' ''@'' ''https://sub.arweave.net/abcdefghijklmnopqrstuvwxyzABCDEFGHIJKLM01_-'' =
     ([], Inl (Error ''ArConnect wallet not found'')) \<and>
   fst (migrateToArns world_ABC ''pA'' ''@'' ''https://sub.arweave.net/abcdefghijklmnopqrstuvwxyzABCDEFGHIJKLM01_-'') =
     [make_submission world_ABC ''pA'' ''@'' ''https://sub.arweave.net/abcdefghijklmnopqrstuvwxyzABCDEFGHIJKLM01_-''
        (Some ''abcdefghijklmnopqrstuvwxyzABCDEFGHIJKLM01_-'')] \<and>
   extractTransactionId ''https://sub.arweave.net/abcdefghijklmnopqrstuvwxyzABCDEFGHIJKLM01_-'' = Some ''abcdefghijklmnopqrstuvwxyzABCDEFGHIJKLM01_-''"
proof -
  have n: "trailing_segment ''not a url'' = None"
    by (simp add: trailing_segment_def)
  have t: "trailing_segment ''https://sub.arweave.net/abcdefghijklmnopqrstuvwxyzABCDEFGHIJKLM01_-'' = Some ''abcdefghijklmnopqrstuvwxyzABCDEFGHIJKLM01_-''"
    by (simp add: trailing_segment_def idChar_def)
  have a: "rx_test arweaveRegex ''https://sub.arweave.net/abcdefghijklmnopqrstuvwxyzABCDEFGHIJKLM01_-''"
    by (simp add: rx_test_def arweaveRegex_match idChar_def)
  show ?thesis
    using n t a
      migrateToArns_extraction [of "''not a url''" world_ABC "''pA''" "''@''" "[]"]
      migrateToArns_extraction [of "''https://sub.arweave.net/abcdefghijklmnopqrstuvwxyzABCDEFGHIJKLM01_-''" world_no_wallet "''pA''" "''@''"
        "''abcdefghijklmnopqrstuvwxyzABCDEFGHIJKLM01_-''"]
      migrateToArns_extraction [of "''https://sub.arweave.net/abcdefghijklmnopqrstuvwxyzABCDEFGHIJKLM01_-''" world_ABC "''pA''" "''@''"
        "''abcdefghijklmnopqrstuvwxyzABCDEFGHIJKLM01_-''"]
    by (simp add: world_ABC_def world_no_wallet_def)
qed

text \<open>
  A contract that rejects the update while \<^verbatim>\<open>NODE_ENV\<close> is \<^verbatim>\<open>development\<close>: the submission
  throws, and the invocation returns the mock result.
\<close>

theorem migrateToArns_dev_mock_counterexample:
  "ant_setUndernameRecord world_reject_dev
     (make_submission world_reject_dev ''pA'' ''@''
        ''https://sub.arweave.net/abcdefghijklmnopqrstuvwxyzABCDEFGHIJKLM01_-''
        (Some ''abcdefghijklmnopqrstuvwxyzABCDEFGHIJKLM01_-'')) =
     Inl (Error ''rejected by the contract'') \<and>
   migrateToArns world_reject_dev ''pA'' ''@''
       ''https://sub.arweave.net/abcdefghijklmnopqrstuvwxyzABCDEFGHIJKLM01_-'' =
     ([make_submission world_reject_dev ''pA'' ''@''
         ''https://sub.arweave.net/abcdefghijklmnopqrstuvwxyzABCDEFGHIJKLM01_-''
         (Some ''abcdefghijklmnopqrstuvwxyzABCDEFGHIJKLM01_-'')],
      Inr \<lparr>arnsUrl = ''https://example-arns.ar.io'', transactionId = ''mock-migration-tx-id''\<rparr>)"
proof -
  have "rx_match txIdPattern ''https://sub.arweave.net/abcdefghijklmnopqrstuvwxyzABCDEFGHIJKLM01_-'' =
        Some (Some ''abcdefghijklmnopqrstuvwxyzABCDEFGHIJKLM01_-'')"
    by (rule rx_match_txId_Some [where pre = "''https://sub.arweave.net''"])
       (simp_all add: idChar_def)
  then show ?thesis
    by (simp add: migrateToArns_def migrateToArns_try_def world_reject_dev_def world_reject_def
        world_ABC_def reject_all_def mock_result_def)
qed

text \<open>
  C3, as the code has it: when the submission step throws, the one submission made is all
  that happened; outside development mode the invocation fails with the error
  \<^verbatim>\<open>Migration failed: \<close> followed by the message of the thrown error (\<^verbatim>\<open>Unknown error\<close> for a
  thrown value that is no \<^verbatim>\<open>Error\<close>) and returns no result, and in development mode it
  returns the mock result.
\<close>

theorem migrateToArns_submission_throws:
  assumes "url = pre @ ''/'' @ seg" and "seg \<noteq> []" and "list_all idChar seg"
    and "arweaveWallet w"
    and "ant_setUndernameRecord w (make_submission w pid un url (Some seg)) = Inl e"
  shows "migrateToArns w pid un url =
           ([make_submission w pid un url (Some seg)],
            if node_env w = Some ''development'' then Inr (mock_result un)
            else Inl (Error (''Migration failed: '' @ message_of e)))"
  using assms(4,5) rx_match_txId_Some [OF assms(1-3)]
  by (simp add: migrateToArns_def migrateToArns_try_def)

theorem migrateToArns_submission_throws_witness:
  "migrateToArns world_reject ''pA'' ''@''
       ''https://sub.arweave.net/abcdefghijklmnopqrstuvwxyzABCDEFGHIJKLM01_-'' =
     ([make_submission world_reject ''pA'' ''@''
         ''https://sub.arweave.net/abcdefghijklmnopqrstuvwxyzABCDEFGHIJKLM01_-''
         (Some ''abcdefghijklmnopqrstuvwxyzABCDEFGHIJKLM01_-'')],
      Inl (Error ''Migration failed: rejected by the contract''))"
  using migrateToArns_submission_throws
    [where w = world_reject and pid = "''pA''" and un = "''@''"
       and pre = "''https://sub.arweave.net''" and seg = "''abcdefghijklmnopqrstuvwxyzABCDEFGHIJKLM01_-''"
       and url = "''https://sub.arweave.net/abcdefghijklmnopqrstuvwxyzABCDEFGHIJKLM01_-''"
       and e = "Error ''rejected by the contract''"]
  by (simp add: idChar_def world_reject_def world_ABC_def reject_all_def)

text \<open>
  C8: on a successful migration (the URL has a last segment, the wallet is there, the
  submission answers with \<open>result\<close>, and the registry holds an entry for the process, the
  first of them with the non-empty name \<open>nm\<close>), the result URL is \<^verbatim>\<open>https://<name>.ar.io\<close> when
  the sub-name is \<^verbatim>\<open>@\<close> or empty and \<^verbatim>\<open>https://<subname>_<name>.ar.io\<close> otherwise, and the
  transaction identifier is the one the submission reported, or \<^verbatim>\<open>pending\<close> when it
  reported none (or an empty one).
\<close>

theorem migrateToArns_result_format:
  assumes "url = pre @ ''/'' @ seg" and "seg \<noteq> []" and "list_all idChar seg"
    and "arweaveWallet w"
    and "ant_setUndernameRecord w (make_submission w pid un url (Some seg)) = Inr result"
    and "io_getArNSRecords w = Inr entries"
    and "find (\<lambda>e. rec_processId (snd e) = pid) entries = Some (nm, r)"
    and "nm \<noteq> []"
  shows "snd (migrateToArns w pid un url) =
           Inr \<lparr>arnsUrl =
                  (if un = ''@'' \<or> un = [] then ''https://'' @ nm @ ''.ar.io''
                   else ''https://'' @ un @ ''_'' @ nm @ ''.ar.io''),
                transactionId =
                  (case res_id result of
                     None \<Rightarrow> ''pending''
                   | Some i \<Rightarrow> if i = [] then ''pending'' else i)\<rparr>"
  using assms(4-8) rx_match_txId_Some [OF assms(1-3)]
  by (simp add: migrateToArns_def migrateToArns_try_def find_arnsName_find or_default_def)

theorem migrateToArns_result_format_witness:
  "snd (migrateToArns world_ABC ''pB'' ''www''
       ''https://sub.arweave.net/abcdefghijklmnopqrstuvwxyzABCDEFGHIJKLM01_-'') =
     Inr \<lparr>arnsUrl = ''https://www_B.ar.io'', transactionId = ''T1''\<rparr> \<and>
   snd (migrateToArns world_ABC ''pA'' ''@''
       ''https://sub.arweave.net/abcdefghijklmnopqrstuvwxyzABCDEFGHIJKLM01_-'') =
     Inr \<lparr>arnsUrl = ''https://A.ar.io'', transactionId = ''T1''\<rparr>"
  using migrateToArns_result_format
    [where w = world_ABC and pid = "''pB''" and un = "''www''"
       and pre = "''https://sub.arweave.net''" and seg = "''abcdefghijklmnopqrstuvwxyzABCDEFGHIJKLM01_-''"
       and url = "''https://sub.arweave.net/abcdefghijklmnopqrstuvwxyzABCDEFGHIJKLM01_-''"
       and result = "\<lparr>res_id = Some ''T1''\<rparr>" and entries = registry_ABC
       and nm = "''B''" and r = "\<lparr>rec_processId = ''pB'', rec_undername = Some ''www''\<rparr>"]
    migrateToArns_result_format
    [where w = world_ABC and pid = "''pA''" and un = "''@''"
       and pre = "''https://sub.arweave.net''" and seg = "''abcdefghijklmnopqrstuvwxyzABCDEFGHIJKLM01_-''"
       and url = "''https://sub.arweave.net/abcdefghijklmnopqrstuvwxyzABCDEFGHIJKLM01_-''"
       and result = "\<lparr>res_id = Some ''T1''\<rparr>" and entries = registry_ABC
       and nm = "''A''" and r = "\<lparr>rec_processId = ''pA'', rec_undername = None\<rparr>"]
  by (simp add: idChar_def world_ABC_def registry_ABC_def accept_T1_def)

end
